theory Spec2Isabelle
  imports Main "HOL-Library.Word"
begin

section \<open>Model of package generichttp (handler.go) and of the add demo\<close>

text \<open>
  The package consists of \<open>NewRequest\<close>, \<open>NewResponse\<close>, \<open>NewResponseWithCode\<close>,
  \<open>JSON\<close>, \<open>WriteJSON\<close>, \<open>WriteJSONCode\<close>, \<open>WriteJSONError\<close> and the error type
  \<open>BadRequestError\<close>. They call into Go's standard library: \<open>encoding/json\<close> (a stream
  decoder and an encoder), \<open>io.LimitReader\<close> and the \<open>http.ResponseWriter\<close> interface.
  The first three subsections model the parts of the standard library the package relies on;
  the package itself follows, function by function, under the names of the source.

  Go strings are byte strings, so \<open>string\<close> (a list of 8-bit \<open>char\<close>) represents them
  directly. Go's \<open>int\<close> is taken to be 64 bits wide.
\<close>

type_synonym go_int = "64 word"

subsection \<open>encoding/json: values and the encoder\<close>

text \<open>
  A JSON value as the scanner delimits it. Numbers keep their literal text; strings hold the
  unquoted bytes; an object keeps its members in order of appearance, duplicates included.
\<close>

datatype json = JNull | JBool bool | JNumber string | JString string
  | JArray "json list" | JObject "(string \<times> json) list"

definition byte :: "char \<Rightarrow> nat" where
  "byte c = of_char c"

definition continuation :: "nat \<Rightarrow> bool" where
  "continuation b \<longleftrightarrow> 0x80 \<le> b \<and> b \<le> 0xBF"

text \<open>
  \<open>utf8_size bs\<close> is the length of the well-formed multi-byte UTF-8 sequence at the head of
  \<open>bs\<close> (2, 3 or 4), and 0 when the head is not the start of one: the case in which
  \<open>utf8.DecodeRune\<close> answers \<open>(RuneError, 1)\<close>.
\<close>

fun utf8_size :: "nat list \<Rightarrow> nat" where
  "utf8_size (b0 # b1 # bs) =
     (if 0xC2 \<le> b0 \<and> b0 \<le> 0xDF then (if continuation b1 then 2 else 0)
      else if 0xE0 \<le> b0 \<and> b0 \<le> 0xEF then
        (if (if b0 = 0xE0 then 0xA0 else 0x80) \<le> b1 \<and> b1 \<le> (if b0 = 0xED then 0x9F else 0xBF)
            \<and> (case bs of [] \<Rightarrow> False | b2 # _ \<Rightarrow> continuation b2)
         then 3 else 0)
      else if 0xF0 \<le> b0 \<and> b0 \<le> 0xF4 then
        (if (if b0 = 0xF0 then 0x90 else 0x80) \<le> b1 \<and> b1 \<le> (if b0 = 0xF4 then 0x8F else 0xBF)
            \<and> (case bs of b2 # b3 # _ \<Rightarrow> continuation b2 \<and> continuation b3 | _ \<Rightarrow> False)
         then 4 else 0)
      else 0)"
| "utf8_size _ = 0"

definition hex :: "nat \<Rightarrow> char" where
  "hex n = ''0123456789abcdef'' ! (n mod 16)"

text \<open>
  How the encoder writes one ASCII byte of a string (HTML escaping is on by default, so
  \<open><\<close>, \<open>>\<close> and \<open>&\<close> are written as \<open>\u00XX\<close> like the control characters without a short
  form). The short forms for backspace and form feed are those of Go 1.22 and later.
\<close>

definition escape_byte :: "char \<Rightarrow> string" where
  "escape_byte c =
     (if c = CHR 0x5C \<or> c = CHR 0x22 then [CHR 0x5C, c]
      else if c = CHR 0x08 then [CHR 0x5C, CHR ''b'']
      else if c = CHR 0x0C then [CHR 0x5C, CHR ''f'']
      else if c = CHR 0x0A then [CHR 0x5C, CHR ''n'']
      else if c = CHR 0x0D then [CHR 0x5C, CHR ''r'']
      else if c = CHR 0x09 then [CHR 0x5C, CHR ''t'']
      else if byte c < 0x20 \<or> c = CHR ''<'' \<or> c = CHR ''>'' \<or> c = CHR ''&''
        then [CHR 0x5C, CHR ''u'', CHR ''0'', CHR ''0'', hex (byte c div 16), hex (byte c mod 16)]
      else [c])"

text \<open>
  The loop of \<open>appendString\<close>: ASCII bytes are escaped or copied, an ill-formed byte becomes
  the escape of U+FFFD, the line and paragraph separators U+2028 and U+2029 are escaped, every other
  well-formed sequence is copied.
\<close>

fun appendString_body :: "string \<Rightarrow> string" where
  "appendString_body [] = []"
| "appendString_body (c # cs) =
     (if byte c < 0x80 then escape_byte c @ appendString_body cs
      else case utf8_size (map byte (take 4 (c # cs))) of
        0 \<Rightarrow> [CHR 0x5C, CHR ''u'', CHR ''f'', CHR ''f'', CHR ''f'', CHR ''d''] @ appendString_body cs
      | Suc m \<Rightarrow>
         (if take (Suc m) (c # cs) = [CHR 0xE2, CHR 0x80, CHR 0xA8]
            then [CHR 0x5C, CHR ''u'', CHR ''2'', CHR ''0'', CHR ''2'', CHR ''8'']
          else if take (Suc m) (c # cs) = [CHR 0xE2, CHR 0x80, CHR 0xA9]
            then [CHR 0x5C, CHR ''u'', CHR ''2'', CHR ''0'', CHR ''2'', CHR ''9'']
          else take (Suc m) (c # cs)) @ appendString_body (drop m cs))"

definition appendString :: "string \<Rightarrow> string" where
  "appendString s = [CHR 0x22] @ appendString_body s @ [CHR 0x22]"

definition join_comma :: "string list \<Rightarrow> string" where
  "join_comma xs = concat (case xs of [] \<Rightarrow> [] | y # ys \<Rightarrow> y # map (\<lambda>z. CHR '','' # z) ys)"

text \<open>The compact text the encoder produces for a value.\<close>

fun encode_json :: "json \<Rightarrow> string" where
  "encode_json JNull = ''null''"
| "encode_json (JBool b) = (if b then ''true'' else ''false'')"
| "encode_json (JNumber lit) = lit"
| "encode_json (JString s) = appendString s"
| "encode_json (JArray vs) = ''['' @ join_comma (map encode_json vs) @ '']''"
| "encode_json (JObject ms) =
     ''{'' @ join_comma (map (\<lambda>m. appendString (fst m) @ '':'' @ encode_json (snd m)) ms) @ ''}''"

text \<open>\<open>strconv.FormatInt(v, 10)\<close>, which the encoder uses for integer fields.\<close>

fun FormatUint :: "nat \<Rightarrow> string" where
  "FormatUint n = (if n < 10 then [''0123456789'' ! n]
                   else FormatUint (n div 10) @ [''0123456789'' ! (n mod 10)])"

declare FormatUint.simps [simp del]

definition FormatInt :: "int \<Rightarrow> string" where
  "FormatInt v = (if v < 0 then CHR ''-'' # FormatUint (nat (- v)) else FormatUint (nat v))"

subsection \<open>encoding/json: the scanner and the stream decoder\<close>

datatype json_error = EOF | ErrUnexpectedEOF | SyntaxError | UnmarshalTypeError

definition isSpace :: "char \<Rightarrow> bool" where
  "isSpace c \<longleftrightarrow> c = CHR '' '' \<or> c = CHR 0x09 \<or> c = CHR 0x0D \<or> c = CHR 0x0A"

definition isDigit :: "char \<Rightarrow> bool" where
  "isDigit c \<longleftrightarrow> byte (CHR ''0'') \<le> byte c \<and> byte c \<le> byte (CHR ''9'')"

definition isHex :: "char \<Rightarrow> bool" where
  "isHex c \<longleftrightarrow> isDigit c
     \<or> (byte (CHR ''a'') \<le> byte c \<and> byte c \<le> byte (CHR ''f''))
     \<or> (byte (CHR ''A'') \<le> byte c \<and> byte c \<le> byte (CHR ''F''))"

text \<open>
  The scanner's states inside a string literal (\<open>stateInString\<close>, \<open>stateInStringEsc\<close>,
  \<open>stateInStringEscU\<close> with the number of hex digits still owed). \<open>scan_string\<close> starts after
  the opening quote and returns the literal's text, escapes still in place, and the input
  after the closing quote.
\<close>

datatype string_state = InString | InStringEsc | InStringEscU nat

definition keep :: "char \<Rightarrow> json_error + string \<times> string \<Rightarrow> json_error + string \<times> string" where
  "keep c r = (case r of Inl e \<Rightarrow> Inl e | Inr (lit, rest) \<Rightarrow> Inr (c # lit, rest))"

fun scan_string :: "string_state \<Rightarrow> string \<Rightarrow> json_error + string \<times> string" where
  "scan_string st [] = Inl ErrUnexpectedEOF"
| "scan_string InString (c # cs) =
     (if c = CHR 0x22 then Inr ([], cs)
      else if c = CHR 0x5C then keep c (scan_string InStringEsc cs)
      else if byte c < 0x20 then Inl SyntaxError
      else keep c (scan_string InString cs))"
| "scan_string InStringEsc (c # cs) =
     (if c \<in> set [CHR ''b'', CHR ''f'', CHR ''n'', CHR ''r'', CHR ''t'', CHR 0x5C, CHR ''/'', CHR 0x22]
        then keep c (scan_string InString cs)
      else if c = CHR ''u'' then keep c (scan_string (InStringEscU 4) cs)
      else Inl SyntaxError)"
| "scan_string (InStringEscU n) (c # cs) =
     (if isHex c then keep c (scan_string (if n \<le> 1 then InString else InStringEscU (n - 1)) cs)
      else Inl SyntaxError)"

text \<open>
  Number literals: an optional minus, \<open>0\<close> or a digit string without leading zero, an
  optional fraction, an optional exponent (\<open>stateNeg\<close>, \<open>state0\<close>, \<open>state1\<close>, \<open>stateDot\<close>,
  \<open>stateE\<close>, ...). The literal ends before the first byte that cannot continue it.
\<close>

definition scan_int :: "string \<Rightarrow> json_error + string \<times> string" where
  "scan_int s = (case s of [] \<Rightarrow> Inl ErrUnexpectedEOF
     | c # cs \<Rightarrow> if c = CHR ''0'' then Inr ([c], cs)
                else if isDigit c then Inr (c # takeWhile isDigit cs, dropWhile isDigit cs)
                else Inl SyntaxError)"

definition scan_digits1 :: "string \<Rightarrow> json_error + string \<times> string" where
  "scan_digits1 s = (case s of [] \<Rightarrow> Inl ErrUnexpectedEOF
     | c # cs \<Rightarrow> if isDigit c then Inr (c # takeWhile isDigit cs, dropWhile isDigit cs)
                else Inl SyntaxError)"

definition scan_frac :: "string \<Rightarrow> json_error + string \<times> string" where
  "scan_frac s = (case s of [] \<Rightarrow> Inr ([], [])
     | c # cs \<Rightarrow> if c = CHR ''.'' then keep c (scan_digits1 cs) else Inr ([], s))"

definition scan_exp :: "string \<Rightarrow> json_error + string \<times> string" where
  "scan_exp s = (case s of [] \<Rightarrow> Inr ([], [])
     | c # cs \<Rightarrow>
        if c = CHR ''e'' \<or> c = CHR ''E'' then
          (case cs of [] \<Rightarrow> Inl ErrUnexpectedEOF
           | d # ds \<Rightarrow> if d = CHR ''+'' \<or> d = CHR ''-'' then keep c (keep d (scan_digits1 ds))
                       else keep c (scan_digits1 cs))
        else Inr ([], s))"

definition scan_number :: "string \<Rightarrow> json_error + string \<times> string" where
  "scan_number s =
     (case (case s of [] \<Rightarrow> Inl ErrUnexpectedEOF
            | c # cs \<Rightarrow> if c = CHR ''-'' then keep c (scan_int cs) else scan_int s) of
        Inl e \<Rightarrow> Inl e
      | Inr (i, r1) \<Rightarrow>
         (case scan_frac r1 of Inl e \<Rightarrow> Inl e
          | Inr (f, r2) \<Rightarrow>
             (case scan_exp r2 of Inl e \<Rightarrow> Inl e
              | Inr (x, r3) \<Rightarrow> Inr (i @ f @ x, r3))))"

text \<open>The remaining letters of \<open>true\<close>, \<open>false\<close> and \<open>null\<close>.\<close>

fun scan_word :: "string \<Rightarrow> string \<Rightarrow> json_error + string" where
  "scan_word [] s = Inr s"
| "scan_word (w # ws) [] = Inl ErrUnexpectedEOF"
| "scan_word (w # ws) (c # cs) = (if c = w then scan_word ws cs else Inl SyntaxError)"

text \<open>
  \<open>unquote\<close> turns the text of a scanned string literal into the bytes it denotes:
  \<open>getu4\<close> reads a \<open>\uXXXX\<close> escape, a surrogate pair is combined, a lone surrogate and an
  ill-formed byte become U+FFFD, and \<open>EncodeRune\<close> writes a code point as UTF-8.
\<close>

definition hexval :: "char \<Rightarrow> nat" where
  "hexval c = (if isDigit c then byte c - byte (CHR ''0'')
               else if byte (CHR ''a'') \<le> byte c then byte c - byte (CHR ''a'') + 10
               else byte c - byte (CHR ''A'') + 10)"

definition getu4 :: "string \<Rightarrow> nat option" where
  "getu4 s = (case s of
       b # u # h1 # h2 # h3 # h4 # _ \<Rightarrow>
         if b = CHR 0x5C \<and> u = CHR ''u'' \<and> isHex h1 \<and> isHex h2 \<and> isHex h3 \<and> isHex h4
         then Some (((hexval h1 * 16 + hexval h2) * 16 + hexval h3) * 16 + hexval h4)
         else None
     | _ \<Rightarrow> None)"

definition EncodeRune :: "nat \<Rightarrow> string" where
  "EncodeRune r =
     (if r < 0x80 then [char_of r]
      else if r < 0x800 then [char_of (0xC0 + r div 64), char_of (0x80 + r mod 64)]
      else if (0xD800 \<le> r \<and> r < 0xE000) \<or> 0x10FFFF < r then [CHR 0xEF, CHR 0xBF, CHR 0xBD]
      else if r < 0x10000 then
        [char_of (0xE0 + r div 4096), char_of (0x80 + r div 64 mod 64), char_of (0x80 + r mod 64)]
      else [char_of (0xF0 + r div 262144), char_of (0x80 + r div 4096 mod 64),
            char_of (0x80 + r div 64 mod 64), char_of (0x80 + r mod 64)])"

definition unescape :: "char \<Rightarrow> char" where
  "unescape c = (if c = CHR ''b'' then CHR 0x08 else if c = CHR ''f'' then CHR 0x0C
     else if c = CHR ''n'' then CHR 0x0A else if c = CHR ''r'' then CHR 0x0D
     else if c = CHR ''t'' then CHR 0x09 else c)"

function unquote :: "string \<Rightarrow> string" where
  "unquote [] = []"
| "unquote (c # cs) =
     (if c = CHR 0x5C then
        (case getu4 (c # cs) of
           None \<Rightarrow> (case cs of [] \<Rightarrow> [] | e # es \<Rightarrow> unescape e # unquote es)
         | Some rr \<Rightarrow>
            (if 0xD800 \<le> rr \<and> rr < 0xE000 then
               (case getu4 (drop 5 cs) of
                  Some rr1 \<Rightarrow>
                    if rr < 0xDC00 \<and> 0xDC00 \<le> rr1 \<and> rr1 < 0xE000
                    then EncodeRune ((rr - 0xD800) * 1024 + (rr1 - 0xDC00) + 0x10000)
                         @ unquote (drop 11 cs)
                    else EncodeRune 0xFFFD @ unquote (drop 5 cs)
                | None \<Rightarrow> EncodeRune 0xFFFD @ unquote (drop 5 cs))
             else EncodeRune rr @ unquote (drop 5 cs)))
      else if byte c < 0x80 then c # unquote cs
      else (case utf8_size (map byte (take 4 (c # cs))) of
              0 \<Rightarrow> EncodeRune 0xFFFD @ unquote cs
            | Suc m \<Rightarrow> take (Suc m) (c # cs) @ unquote (drop m cs)))"
  by pat_completeness auto
termination
  by (relation "measure length") auto

text \<open>
  The input as a sequence of tokens. A token that cannot be completed ends the sequence:
  \<open>BadString\<close> for a string literal, \<open>Bad\<close> for anything else, each with the scanner's error
  (\<open>SyntaxError\<close> for a byte that does not fit, \<open>ErrUnexpectedEOF\<close> when the input stops
  inside the token). \<open>End\<close> marks the end of the input.
\<close>

datatype token = BeginObject | EndObject | BeginArray | EndArray | Colon | Comma
  | Atom json | BadString json_error | Bad json_error | End

definition atom :: "json \<Rightarrow> json_error + string \<Rightarrow> token \<times> string" where
  "atom v r = (case r of Inl e \<Rightarrow> (Bad e, []) | Inr rest \<Rightarrow> (Atom v, rest))"

definition scan_token :: "char \<Rightarrow> string \<Rightarrow> token \<times> string" where
  "scan_token c cs =
     (if c = CHR ''{'' then (BeginObject, cs)
      else if c = CHR ''}'' then (EndObject, cs)
      else if c = CHR ''['' then (BeginArray, cs)
      else if c = CHR '']'' then (EndArray, cs)
      else if c = CHR '':'' then (Colon, cs)
      else if c = CHR '','' then (Comma, cs)
      else if c = CHR 0x22 then
        (case scan_string InString cs of
           Inl e \<Rightarrow> (BadString e, [])
         | Inr (lit, rest) \<Rightarrow> (Atom (JString (unquote lit)), rest))
      else if c = CHR ''-'' \<or> isDigit c then
        (case scan_number (c # cs) of
           Inl e \<Rightarrow> (Bad e, [])
         | Inr (lit, rest) \<Rightarrow> (Atom (JNumber lit), rest))
      else if c = CHR ''t'' then atom (JBool True) (scan_word ''rue'' cs)
      else if c = CHR ''f'' then atom (JBool False) (scan_word ''alse'' cs)
      else if c = CHR ''n'' then atom JNull (scan_word ''ull'' cs)
      else (Bad SyntaxError, []))"

definition is_bad :: "token \<Rightarrow> bool" where
  "is_bad t = (case t of Bad _ \<Rightarrow> True | BadString _ \<Rightarrow> True | _ \<Rightarrow> False)"

lemma keep_Inr: "keep c r = Inr (lit, rest) \<Longrightarrow> \<exists>lit'. r = Inr (lit', rest)"
  by (auto simp: keep_def split: sum.splits)

lemma scan_string_length: "scan_string st s = Inr (lit, rest) \<Longrightarrow> length rest \<le> length s"
proof (induction st s arbitrary: lit rule: scan_string.induct)
  case (1 st)
  then show ?case by simp
next
  case (2 c cs)
  then show ?case by (fastforce split: if_splits dest: keep_Inr)
next
  case (3 c cs)
  then show ?case by (fastforce split: if_splits dest: keep_Inr)
next
  case (4 n c cs)
  then show ?case by (fastforce split: if_splits dest: keep_Inr)
qed

lemma scan_word_length: "scan_word w s = Inr rest \<Longrightarrow> length rest \<le> length s"
  by (induction w s rule: scan_word.induct) (auto split: if_splits)

lemma scan_int_length: "scan_int s = Inr (lit, rest) \<Longrightarrow> length rest \<le> length s"
  by (auto simp: scan_int_def split: list.splits if_splits
      intro: le_SucI length_dropWhile_le)

lemma scan_int_consumes: "scan_int (c # cs) = Inr (lit, rest) \<Longrightarrow> length rest \<le> length cs"
  by (auto simp: scan_int_def split: if_splits intro: length_dropWhile_le)

lemma scan_digits1_length: "scan_digits1 s = Inr (lit, rest) \<Longrightarrow> length rest \<le> length s"
  by (auto simp: scan_digits1_def split: list.splits if_splits
      intro: le_SucI length_dropWhile_le)

lemma scan_frac_length: "scan_frac s = Inr (lit, rest) \<Longrightarrow> length rest \<le> length s"
  by (auto simp: scan_frac_def split: list.splits if_splits
      dest!: keep_Inr scan_digits1_length)

lemma scan_exp_length: "scan_exp s = Inr (lit, rest) \<Longrightarrow> length rest \<le> length s"
  by (auto simp: scan_exp_def split: list.splits if_splits
      dest!: keep_Inr scan_digits1_length)

lemma scan_number_consumes:
  assumes "scan_number (c # cs) = Inr (lit, rest)"
  shows "length rest \<le> length cs"
proof -
  from assms obtain i r1 f r2 x where
    a: "(if c = CHR ''-'' then keep c (scan_int cs) else scan_int (c # cs)) = Inr (i, r1)"
    and b: "scan_frac r1 = Inr (f, r2)" and c: "scan_exp r2 = Inr (x, rest)"
    by (auto simp: scan_number_def split: sum.splits)
  have "length r1 \<le> length cs"
  proof (cases "c = CHR ''-''")
    case True
    with a obtain i' where "scan_int cs = Inr (i', r1)"
      by (auto dest: keep_Inr)
    then show ?thesis by (rule scan_int_length)
  next
    case False
    with a show ?thesis by (simp add: scan_int_consumes)
  qed
  with scan_frac_length [OF b] scan_exp_length [OF c] show ?thesis by simp
qed

lemma scan_token_length:
  assumes "scan_token c cs = (t, rest)"
  shows "length rest \<le> length cs"
proof -
  have str: "length (snd (case scan_string InString cs of
           Inl e \<Rightarrow> (BadString e, [])
         | Inr (lit, r) \<Rightarrow> (Atom (JString (unquote lit)), r))) \<le> length cs"
    by (auto split: sum.splits dest: scan_string_length)
  have num: "length (snd (case scan_number (c # cs) of
           Inl e \<Rightarrow> (Bad e, [])
         | Inr (lit, r) \<Rightarrow> (Atom (JNumber lit), r))) \<le> length cs"
  proof (cases "scan_number (c # cs)")
    case (Inl e)
    then show ?thesis by simp
  next
    case (Inr p)
    obtain lit r where p: "p = (lit, r)" by (cases p)
    from Inr p have "scan_number (c # cs) = Inr (lit, r)" by simp
    then have "length r \<le> length cs" by (rule scan_number_consumes)
    with Inr p show ?thesis by simp
  qed
  have word: "length (snd (atom v (scan_word w cs))) \<le> length cs" for v w
    by (auto simp: atom_def split: sum.splits dest: scan_word_length)
  have "length (snd (scan_token c cs)) \<le> length cs"
    unfolding scan_token_def using str num word by simp
  with assms show ?thesis by simp
qed

function tokens :: "string \<Rightarrow> token list" where
  "tokens [] = [End]"
| "tokens (c # cs) =
     (if isSpace c then tokens cs
      else case scan_token c cs of (t, rest) \<Rightarrow> if is_bad t then [t] else t # tokens rest)"
  by pat_completeness auto
termination
  by (relation "measure length") (auto dest: scan_token_length [OF sym])

text \<open>
  The scanner's parse stack: one frame for each array or object that is open, holding what
  has been read of it (for an object also the key whose value is awaited). What the scanner
  expects next is one of six states. At most \<open>maxNestingDepth\<close> containers may be open.
\<close>

datatype frame = ArrayFrame "json list" | ObjectFrame "(string \<times> json) list" "string option"

datatype expect = ExpValue | ExpValueOrEnd | ExpKey | ExpKeyOrEnd | ExpColon | ExpCommaOrEnd

datatype outcome = Continue expect "frame list" | Finished json | Failed json_error

definition maxNestingDepth :: nat where
  "maxNestingDepth = 10000"

definition push :: "frame \<Rightarrow> expect \<Rightarrow> frame list \<Rightarrow> outcome" where
  "push f e stk = (if length (f # stk) \<le> maxNestingDepth then Continue e (f # stk)
                   else Failed SyntaxError)"

definition complete :: "json \<Rightarrow> frame list \<Rightarrow> outcome" where
  "complete v stk = (case stk of
       [] \<Rightarrow> Finished v
     | ArrayFrame vs # r \<Rightarrow> Continue ExpCommaOrEnd (ArrayFrame (vs @ [v]) # r)
     | ObjectFrame ms (Some k) # r \<Rightarrow>
         Continue ExpCommaOrEnd (ObjectFrame (ms @ [(k, v)]) None # r)
     | ObjectFrame ms None # r \<Rightarrow> Failed SyntaxError)"

definition begin_value :: "bool \<Rightarrow> frame list \<Rightarrow> token \<Rightarrow> outcome" where
  "begin_value or_end stk t = (case t of
       Atom v \<Rightarrow> complete v stk
     | BeginObject \<Rightarrow> push (ObjectFrame [] None) ExpKeyOrEnd stk
     | BeginArray \<Rightarrow> push (ArrayFrame []) ExpValueOrEnd stk
     | EndArray \<Rightarrow> (case stk of
           ArrayFrame vs # r \<Rightarrow> if or_end then complete (JArray vs) r else Failed SyntaxError
         | _ \<Rightarrow> Failed SyntaxError)
     | End \<Rightarrow> Failed (if stk = [] then EOF else ErrUnexpectedEOF)
     | Bad e \<Rightarrow> Failed e
     | BadString e \<Rightarrow> Failed e
     | _ \<Rightarrow> Failed SyntaxError)"

definition begin_key :: "bool \<Rightarrow> frame list \<Rightarrow> token \<Rightarrow> outcome" where
  "begin_key or_end stk t = (case t of
       Atom (JString k) \<Rightarrow> (case stk of
           ObjectFrame ms _ # r \<Rightarrow> Continue ExpColon (ObjectFrame ms (Some k) # r)
         | _ \<Rightarrow> Failed SyntaxError)
     | EndObject \<Rightarrow> (case stk of
           ObjectFrame ms _ # r \<Rightarrow> if or_end then complete (JObject ms) r else Failed SyntaxError
         | _ \<Rightarrow> Failed SyntaxError)
     | End \<Rightarrow> Failed ErrUnexpectedEOF
     | BadString e \<Rightarrow> Failed e
     | _ \<Rightarrow> Failed SyntaxError)"

definition end_value :: "frame list \<Rightarrow> token \<Rightarrow> outcome" where
  "end_value stk t = (case t of
       Comma \<Rightarrow> (case stk of
           ArrayFrame _ # _ \<Rightarrow> Continue ExpValue stk
         | ObjectFrame _ _ # _ \<Rightarrow> Continue ExpKey stk
         | [] \<Rightarrow> Failed SyntaxError)
     | EndArray \<Rightarrow> (case stk of
           ArrayFrame vs # r \<Rightarrow> complete (JArray vs) r
         | _ \<Rightarrow> Failed SyntaxError)
     | EndObject \<Rightarrow> (case stk of
           ObjectFrame ms _ # r \<Rightarrow> complete (JObject ms) r
         | _ \<Rightarrow> Failed SyntaxError)
     | End \<Rightarrow> Failed ErrUnexpectedEOF
     | _ \<Rightarrow> Failed SyntaxError)"

definition step :: "expect \<Rightarrow> frame list \<Rightarrow> token \<Rightarrow> outcome" where
  "step e stk t = (case e of
       ExpValue \<Rightarrow> begin_value False stk t
     | ExpValueOrEnd \<Rightarrow> begin_value True stk t
     | ExpKey \<Rightarrow> begin_key False stk t
     | ExpKeyOrEnd \<Rightarrow> begin_key True stk t
     | ExpColon \<Rightarrow> (case t of
           Colon \<Rightarrow> Continue ExpValue stk
         | End \<Rightarrow> Failed ErrUnexpectedEOF
         | _ \<Rightarrow> Failed SyntaxError)
     | ExpCommaOrEnd \<Rightarrow> end_value stk t)"

fun parse :: "expect \<Rightarrow> frame list \<Rightarrow> token list \<Rightarrow> json_error + json \<times> token list" where
  "parse e stk [] = Inl ErrUnexpectedEOF"
| "parse e stk (t # ts) = (case step e stk t of
       Finished v \<Rightarrow> Inr (v, ts)
     | Failed err \<Rightarrow> Inl err
     | Continue e' stk' \<Rightarrow> parse e' stk' ts)"

text \<open>
  \<open>Decoder.readValue\<close>: the first JSON value of the input, together with the tokens that
  follow it. They are not looked at: the stream decoder stops at the end of the first value.
  The input fails with \<open>EOF\<close> when it holds nothing but white space, with
  \<open>ErrUnexpectedEOF\<close> when it stops inside the value, and with \<open>SyntaxError\<close> at a byte that
  cannot continue the value.
\<close>

definition readValue :: "string \<Rightarrow> json_error + json \<times> token list" where
  "readValue s = parse ExpValue [] (tokens s)"

text \<open>
  Storing a value into the target is driven by reflection on the target's type. For a
  target of type \<open>**T\<close> holding a nil pointer it is represented by a function of type
  \<open>'r unmarshaler\<close>, which maps the value read to the pointer stored (\<open>None\<close> for nil) and the
  error reported.

  \<open>Decoder_Decode\<close> is \<open>Decoder.Decode\<close> on such a target, given the bytes the reader
  supplies: nothing is stored unless a whole value has been read.
  \<open>Unmarshal\<close> is \<open>json.Unmarshal\<close>, which first requires (\<open>Valid\<close>) that the input is one
  value with nothing but white space around it.
\<close>

type_synonym 'r unmarshaler = "json \<Rightarrow> 'r option \<times> json_error option"

definition Decoder_Decode :: "'r unmarshaler \<Rightarrow> string \<Rightarrow> 'r option \<times> json_error option" where
  "Decoder_Decode um input = (case readValue input of
       Inl e \<Rightarrow> (None, Some e)
     | Inr (v, _) \<Rightarrow> um v)"

definition Valid :: "string \<Rightarrow> bool" where
  "Valid input = (case readValue input of Inl e \<Rightarrow> False | Inr (v, rest) \<Rightarrow> rest = [End])"

definition Unmarshal :: "'r unmarshaler \<Rightarrow> string \<Rightarrow> 'r option \<times> json_error option" where
  "Unmarshal um input = (case readValue input of
       Inl e \<Rightarrow> (None, Some SyntaxError)
     | Inr (v, rest) \<Rightarrow> if rest = [End] then um v else (None, Some SyntaxError))"

subsection \<open>io.LimitReader\<close>

text \<open>
  A \<open>LimitedReader\<close> holds the underlying reader \<open>R\<close>, here the bytes the request body has
  yet to deliver, and the number \<open>N\<close> of bytes that may still be read. \<open>Read\<close> with a buffer
  of \<open>len\<close> bytes returns the bytes read, whether it reports the end of the stream, and the
  reader afterwards.
\<close>

record LimitedReader =
  R :: string
  N :: int

definition LimitReader :: "string \<Rightarrow> int \<Rightarrow> LimitedReader" where
  "LimitReader r n = \<lparr>R = r, N = n\<rparr>"

definition LimitedReader_Read :: "LimitedReader \<Rightarrow> nat \<Rightarrow> string \<times> bool \<times> LimitedReader" where
  "LimitedReader_Read l len =
     (if N l \<le> 0 then ([], True, l)
      else let p = (if int len > N l then nat (N l) else len);
               bs = take p (R l)
           in (bs, R l = [], \<lparr>R = drop p (R l), N = N l - int (length bs)\<rparr>))"

text \<open>A client that calls \<open>Read\<close> with buffers of the given lengths, one after the other.\<close>

fun reads :: "LimitedReader \<Rightarrow> nat list \<Rightarrow> string \<times> LimitedReader" where
  "reads l [] = ([], l)"
| "reads l (len # lens) =
     (case LimitedReader_Read l len of (bs, eof, l') \<Rightarrow>
        (case reads l' lens of (cs, l'') \<Rightarrow> (bs @ cs, l'')))"

text \<open>
  Reading until the end of the stream is reported, with the decoder's minimal buffer of
  512 bytes (\<open>minRead\<close>). This is every byte the decoder can get to see.
\<close>

function ReadAll :: "LimitedReader \<Rightarrow> string \<times> LimitedReader" where
  "ReadAll l =
     (case LimitedReader_Read l 512 of (bs, eof, l') \<Rightarrow>
        if eof then (bs, l')
        else (case ReadAll l' of (cs, l'') \<Rightarrow> (bs @ cs, l'')))"
  by pat_completeness auto
termination
  by (relation "measure (\<lambda>l. length (R l))")
     (auto simp: LimitedReader_Read_def Let_def split: if_splits)

declare ReadAll.simps [simp del]

subsection \<open>net/http\<close>

text \<open>
  \<open>http.ResponseWriter\<close> is an interface of the host. It is represented by the calls made on
  it so far, oldest first: \<open>w.Header().Set(k, v)\<close>, \<open>w.WriteHeader(code)\<close> and
  \<open>w.Write(bytes)\<close>. Of \<open>http.Request\<close> only the method, the URL and the bytes of the body
  are kept.
\<close>

datatype call = HeaderSet string string | WriteHeader go_int | Write string

type_synonym ResponseWriter = "call list"

record http_Request =
  Method :: string
  URL :: string
  Body :: string

definition StatusOK :: go_int where
  "StatusOK = 200"

definition StatusBadRequest :: go_int where
  "StatusBadRequest = 400"

definition StatusInternalServerError :: go_int where
  "StatusInternalServerError = 500"

text \<open>
  A value of interface type \<open>error\<close>: its \<open>Error()\<close> text and, where the dynamic type has
  them, the results of its methods \<open>HTTPCode() int\<close> and \<open>HTTPError() string\<close>
  (\<open>None\<close> when the type assertion to the one-method interface fails).
\<close>

record error =
  Error :: string
  HTTPCode :: "go_int option"
  HTTPError :: "string option"

text \<open>
  \<open>Encoder.Encode\<close> on a writer: the value is marshalled first; if that fails nothing is
  written, otherwise the text and a newline go out in one \<open>Write\<close>. The argument is the
  result of marshalling (\<open>None\<close> for a value that has no JSON encoding).
\<close>

definition Encoder_Encode :: "ResponseWriter \<Rightarrow> json option \<Rightarrow> ResponseWriter" where
  "Encoder_Encode w v = (case v of
       None \<Rightarrow> w
     | Some j \<Rightarrow> w @ [Write (encode_json j @ [CHR 0x0A])])"

subsection \<open>handler.go\<close>

text \<open>
  \<open>type Request[T any] struct { *http.Request; Data *T }\<close> and
  \<open>type Response[T any] struct { StatusCode int; Data *T }\<close>. A nil pointer is \<open>None\<close>.
\<close>

record 'r Request =
  Request :: http_Request
  Data :: "'r option"

record 'w Response =
  StatusCode :: go_int
  Data :: "'w option"

text \<open>The panics of the Go runtime that the package can raise.\<close>

datatype panic = NilPointerDereference

text \<open>
  \<open>type Handler[R, W any] func(http.ResponseWriter, Request[R]) (*Response[W], error)\<close>.
  The handler may call the writer, so the writer comes back with the results.
\<close>

type_synonym ('r, 'w) Handler =
  "ResponseWriter \<Rightarrow> 'r Request \<Rightarrow> ResponseWriter \<times> 'w Response option \<times> error option"

text \<open>
  \<open>NewRequest\<close>: the decoder reads the body through \<open>io.LimitReader(r.Body, 1<<20)\<close> and
  stores into \<open>&req.Data\<close>; the error of \<open>Decode\<close> is discarded. The type parameter \<open>T\<close>
  enters through its unmarshaler.
\<close>

definition NewRequest :: "'r unmarshaler \<Rightarrow> http_Request \<Rightarrow> 'r Request" where
  "NewRequest um r =
     \<lparr>Request = r,
      Request.Data = fst (Decoder_Decode um (fst (ReadAll (LimitReader (Body r) (push_bit 20 1)))))\<rparr>"

definition NewResponseWithCode :: "go_int \<Rightarrow> 'w option \<Rightarrow> 'w Response" where
  "NewResponseWithCode code data = \<lparr>StatusCode = code, Data = data\<rparr>"

definition NewResponse :: "'w option \<Rightarrow> 'w Response" where
  "NewResponse data = NewResponseWithCode StatusOK data"

text \<open>
  \<open>WriteJSONCode\<close>. The argument \<open>data any\<close> is represented by the result of marshalling
  it, as \<open>Encoder_Encode\<close> expects.
\<close>

definition WriteJSONCode :: "ResponseWriter \<Rightarrow> go_int \<Rightarrow> json option \<Rightarrow> ResponseWriter" where
  "WriteJSONCode w code data =
     (let w1 = w @ [HeaderSet ''Content-Type'' ''application/json''];
          code' = (if code = 0 then StatusOK else code);
          w2 = w1 @ [WriteHeader code']
      in Encoder_Encode w2 data)"

definition WriteJSON :: "ResponseWriter \<Rightarrow> json option \<Rightarrow> ResponseWriter" where
  "WriteJSON w data = WriteJSONCode w StatusOK data"

text \<open>
  \<open>WriteJSONError\<close>. The anonymous struct \<open>msg\<close> with its field \<open>Message\<close>, tagged
  \<open>json:"message"\<close>, marshals to an object with the one member \<open>message\<close>.
\<close>

definition WriteJSONError :: "ResponseWriter \<Rightarrow> error \<Rightarrow> ResponseWriter" where
  "WriteJSONError w err =
     (let msg = ''Internal server error'';
          w1 = w @ [HeaderSet ''Content-Type'' ''application/json''];
          w2 = (case HTTPCode err of
                  Some code \<Rightarrow> w1 @ [WriteHeader code]
                | None \<Rightarrow> w1 @ [WriteHeader StatusInternalServerError]);
          msg' = (case HTTPError err of Some m \<Rightarrow> m | None \<Rightarrow> msg)
      in Encoder_Encode w2 (Some (JObject [(''message'', JString msg')])))"

text \<open>
  \<open>JSON\<close>: the \<open>http.Handler\<close> it returns, applied to a writer and a request. The type
  parameters \<open>R\<close> and \<open>W\<close> enter through the unmarshaler of \<open>R\<close> and the marshaler of \<open>W\<close>.
  Reading \<open>resp.Data\<close> through a nil \<open>resp\<close> panics.
\<close>

definition JSON :: "'r unmarshaler \<Rightarrow> ('w \<Rightarrow> json option) \<Rightarrow> ('r, 'w) Handler
    \<Rightarrow> ResponseWriter \<Rightarrow> http_Request \<Rightarrow> panic + ResponseWriter" where
  "JSON um marshal h w r =
     (let req = NewRequest um r in
      case h w req of (w', resp, err) \<Rightarrow>
        (case err of
           Some e \<Rightarrow> Inr (WriteJSONError w' e)
         | None \<Rightarrow>
            (case resp of
               None \<Rightarrow> Inl NilPointerDereference
             | Some rs \<Rightarrow>
                (case Response.Data rs of
                   Some d \<Rightarrow> Inr (WriteJSONCode w' (StatusCode rs) (marshal d))
                 | None \<Rightarrow> Inr w'))))"

text \<open>\<open>BadRequestError\<close> and its three methods; \<open>as_error\<close> is its use as an \<open>error\<close>.\<close>

record BadRequestError =
  Message :: string

definition BadRequestError_HTTPCode :: "BadRequestError \<Rightarrow> go_int" where
  "BadRequestError_HTTPCode e = StatusBadRequest"

definition BadRequestError_HTTPError :: "BadRequestError \<Rightarrow> string" where
  "BadRequestError_HTTPError e = (if Message e \<noteq> [] then Message e else ''Bad request'')"

definition BadRequestError_Error :: "BadRequestError \<Rightarrow> string" where
  "BadRequestError_Error e = BadRequestError_HTTPError e"

definition as_error :: "BadRequestError \<Rightarrow> error" where
  "as_error e = \<lparr>Error = BadRequestError_Error e,
                 HTTPCode = Some (BadRequestError_HTTPCode e),
                 HTTPError = Some (BadRequestError_HTTPError e)\<rparr>"

subsection \<open>The add demo\<close>

text \<open>
  \<open>addRequest\<close> and \<open>addResponse\<close> with the codecs reflection gives them. Decoding an object
  into \<open>addRequest\<close> goes through its members in order: a key equal to \<open>a\<close> or \<open>b\<close> up to
  letter case selects the field; \<open>null\<close> leaves the field alone; a number literal is stored
  if \<open>strconv.ParseInt\<close> accepts it as an int64; anything else leaves the field alone and
  records an \<open>UnmarshalTypeError\<close> (the first one is kept); other keys are skipped. A
  top-level \<open>null\<close> leaves the pointer nil; any other value allocates the struct first.
\<close>

record addRequest =
  A :: go_int
  B :: go_int

record addResponse =
  Result :: go_int

definition digits_value :: "string \<Rightarrow> nat" where
  "digits_value ds = foldl (\<lambda>n d. 10 * n + (byte d - byte (CHR ''0''))) 0 ds"

definition ParseInt64 :: "string \<Rightarrow> int option" where
  "ParseInt64 s =
     (let neg = (s \<noteq> [] \<and> hd s = CHR ''-'');
          ds = (if s \<noteq> [] \<and> (hd s = CHR ''-'' \<or> hd s = CHR ''+'') then tl s else s);
          v = (if neg then - int (digits_value ds) else int (digits_value ds))
      in if ds \<noteq> [] \<and> list_all isDigit ds \<and> - (2 ^ 63) \<le> v \<and> v < 2 ^ 63 then Some v else None)"

definition store_int :: "json \<Rightarrow> go_int \<Rightarrow> go_int \<times> json_error option" where
  "store_int v old = (case v of
       JNull \<Rightarrow> (old, None)
     | JNumber lit \<Rightarrow> (case ParseInt64 lit of
           Some n \<Rightarrow> (word_of_int n, None)
         | None \<Rightarrow> (old, Some UnmarshalTypeError))
     | _ \<Rightarrow> (old, Some UnmarshalTypeError))"

definition first_error :: "json_error option \<Rightarrow> json_error option \<Rightarrow> json_error option" where
  "first_error saved e = (case saved of None \<Rightarrow> e | Some _ \<Rightarrow> saved)"

definition toUpper :: "char \<Rightarrow> char" where
  "toUpper c = (if byte (CHR ''a'') \<le> byte c \<and> byte c \<le> byte (CHR ''z'')
                then char_of (byte c - 32) else c)"

definition store_member :: "addRequest \<times> json_error option \<Rightarrow> string \<times> json
    \<Rightarrow> addRequest \<times> json_error option" where
  "store_member acc m =
     (case acc of (req, saved) \<Rightarrow>
        if map toUpper (fst m) = ''A'' then
          (case store_int (snd m) (A req) of (x, e) \<Rightarrow> (req\<lparr>A := x\<rparr>, first_error saved e))
        else if map toUpper (fst m) = ''B'' then
          (case store_int (snd m) (B req) of (x, e) \<Rightarrow> (req\<lparr>B := x\<rparr>, first_error saved e))
        else acc)"

definition unmarshal_addRequest :: "addRequest unmarshaler" where
  "unmarshal_addRequest v = (case v of
       JNull \<Rightarrow> (None, None)
     | JObject ms \<Rightarrow>
         (case foldl store_member (\<lparr>A = 0, B = 0\<rparr>, None) ms of (req, e) \<Rightarrow> (Some req, e))
     | _ \<Rightarrow> (Some \<lparr>A = 0, B = 0\<rparr>, Some UnmarshalTypeError))"

definition marshal_addResponse :: "addResponse \<Rightarrow> json option" where
  "marshal_addResponse d = Some (JObject [(''result'', JNumber (FormatInt (sint (Result d))))])"

text \<open>The function literal that \<open>addHandler\<close> passes to \<open>JSON\<close>, and \<open>addHandler\<close> itself.\<close>

definition add :: "(addRequest, addResponse) Handler" where
  "add w req = (case Request.Data req of
       None \<Rightarrow> (w, None, Some (as_error \<lparr>Message = ''Missing request data''\<rparr>))
     | Some d \<Rightarrow> (w, Some (NewResponse (Some \<lparr>Result = A d + B d\<rparr>)), None))"

definition addHandler :: "ResponseWriter \<Rightarrow> http_Request \<Rightarrow> panic + ResponseWriter" where
  "addHandler = JSON unmarshal_addRequest marshal_addResponse add"

section \<open>Properties\<close>

text \<open>
  C7. When the handler returns a nil error and a response envelope whose payload is absent,
  the adapter makes no call on the response writer: no header is set, no status line and no
  body are written, and the writer is as the handler left it.
\<close>

theorem JSON_empty_payload_no_write:
  assumes "h w (NewRequest um r) = (w', Some resp, None)"
    and "Response.Data resp = None"
  shows "JSON um marshal h w r = Inr w'"
  using assms by (simp add: JSON_def)

theorem JSON_empty_payload_no_write_witness:
  "JSON unmarshal_addRequest marshal_addResponse
     (\<lambda>w req. (w @ [Write ''Time''], Some (NewResponse None), None))
     [] \<lparr>Method = ''GET'', URL = ''/'', Body = []\<rparr> = Inr [Write ''Time'']"
  by (rule JSON_empty_payload_no_write [where resp = "NewResponse None"])
     (simp_all add: NewResponse_def NewResponseWithCode_def)

end
